theory Spec2Isabelle
  imports Main "HOL-Library.AList"
begin

section \<open>Errors\<close>

text \<open>
  The exceptions that the script \<^verbatim>\<open>shixian.py\<close> and the library calls it makes can raise.
  A raise is the left injection of a sum, so every failing path is a branch of the model.
\<close>

datatype error =
    FileNotFoundError
  | PermissionError
  | ValueError
  | OverflowError
  | ZeroDivisionError
  | FileExistsError
  | NotADirectoryError
  | OSError
  | ShutilError

section \<open>Calendar dates (Python's \<^verbatim>\<open>datetime.date\<close>)\<close>

text \<open>
  A \<^verbatim>\<open>date\<close> holds year, month and day of the proleptic Gregorian calendar. Its
  arithmetic goes through the ordinal of the day (day 1 is 0001-01-01): the functions
  below follow the standard library's \<^verbatim>\<open>_ymd2ord\<close> and \<^verbatim>\<open>_ord2ymd\<close>.
\<close>

record date =
  year :: int
  month :: int
  day :: int

record datetime =
  dt_date :: date
  hour :: int
  minute :: int
  second :: int

definition MAXORDINAL :: int where
  "MAXORDINAL = 3652059"

definition is_leap :: "int \<Rightarrow> bool" where
  "is_leap y = (y mod 4 = 0 \<and> (y mod 100 \<noteq> 0 \<or> y mod 400 = 0))"

definition days_before_year :: "int \<Rightarrow> int" where
  "days_before_year yr = (let y = yr - 1 in y * 365 + y div 4 - y div 100 + y div 400)"

definition DAYS_IN_MONTH :: "int list" where
  "DAYS_IN_MONTH = [-1, 31, 28, 31, 30, 31, 30, 31, 31, 30, 31, 30, 31]"

definition DAYS_BEFORE_MONTH :: "int list" where
  "DAYS_BEFORE_MONTH = [-1, 0, 31, 59, 90, 120, 151, 181, 212, 243, 273, 304, 334]"

definition days_before_month :: "bool \<Rightarrow> int \<Rightarrow> int" where
  "days_before_month leap m =
     DAYS_BEFORE_MONTH ! nat m + (if m > 2 \<and> leap then 1 else 0)"

definition ymd2ord :: "int \<Rightarrow> int \<Rightarrow> int \<Rightarrow> int" where
  "ymd2ord y m d = days_before_year y + days_before_month (is_leap y) m + d"

definition toordinal :: "date \<Rightarrow> int" where
  "toordinal dt = ymd2ord (year dt) (month dt) (day dt)"

text \<open>
  \<^verbatim>\<open>_ord2ymd\<close>: the 400-, 100-, 4- and 1-year cycles are peeled off the day number,
  the month is estimated as \<^verbatim>\<open>(n + 50) >> 5\<close> and corrected downwards when the estimate
  is one too large.
\<close>

definition month_day :: "bool \<Rightarrow> int \<Rightarrow> int \<times> int" where
  "month_day leapyear n =
     (let m = (n + 50) div 32;
          preceding = days_before_month leapyear m
      in if preceding > n
         then (let m' = m - 1;
                   preceding' = preceding
                     - (DAYS_IN_MONTH ! nat m' + (if m' = 2 \<and> leapyear then 1 else 0))
               in (m', n - preceding' + 1))
         else (m, n - preceding + 1))"

definition ord2ymd :: "int \<Rightarrow> date" where
  "ord2ymd n0 =
     (let n = n0 - 1;
          n400 = n div 146097; n = n mod 146097;
          n100 = n div 36524; n = n mod 36524;
          n4 = n div 1461; n = n mod 1461;
          n1 = n div 365; n = n mod 365;
          yr = n400 * 400 + 1 + n100 * 100 + n4 * 4 + n1
      in if n1 = 4 \<or> n100 = 4
         then \<lparr>year = yr - 1, month = 12, day = 31\<rparr>
         else (let leapyear = (n1 = 3 \<and> (n4 \<noteq> 24 \<or> n100 = 3));
                   md = month_day leapyear n
               in \<lparr>year = yr, month = fst md, day = snd md\<rparr>))"

text \<open>
  \<^verbatim>\<open>timedelta(days=n)\<close> refuses a magnitude above 999999999 days, and
  \<^verbatim>\<open>date + timedelta\<close> refuses a result outside 0001-01-01 .. 9999-12-31; both raise
  \<^verbatim>\<open>OverflowError\<close>.
\<close>

definition timedelta :: "int \<Rightarrow> error + int" where
  "timedelta n = (if \<bar>n\<bar> \<le> 999999999 then Inr n else Inl OverflowError)"

definition date_add :: "date \<Rightarrow> int \<Rightarrow> error + date" where
  "date_add dt n =
     (let o' = toordinal dt + n
      in if 0 < o' \<and> o' \<le> MAXORDINAL then Inr (ord2ymd o') else Inl OverflowError)"

text \<open>\<^verbatim>\<open>(a - b).days\<close> for two dates.\<close>

definition date_diff_days :: "date \<Rightarrow> date \<Rightarrow> int" where
  "date_diff_days a b = toordinal a - toordinal b"

subsection \<open>Formatting: \<^verbatim>\<open>strftime('%Y.%m.%d')\<close>\<close>

text \<open>
  \<^verbatim>\<open>%m\<close> and \<^verbatim>\<open>%d\<close> are decimals zero-padded to two digits. \<^verbatim>\<open>%Y\<close> is handed
  to the C library, and glibc writes the year as a plain decimal, without padding: the
  year 999 gives \<^verbatim>\<open>999\<close>. \<^verbatim>\<open>str_nat\<close> is the decimal numeral of a natural number,
  which is also what \<^verbatim>\<open>str(i)\<close> and an f-string give for a non-negative integer.
\<close>

definition digit :: "int \<Rightarrow> char" where
  "digit n = ''0123456789'' ! nat n"

definition pad2 :: "int \<Rightarrow> string" where
  "pad2 n = [digit (n div 10 mod 10), digit (n mod 10)]"

fun str_nat :: "nat \<Rightarrow> string" where
  "str_nat n =
     (if n < 10 then [digit (int n)] else str_nat (n div 10) @ [digit (int (n mod 10))])"

declare str_nat.simps [simp del]

definition strftime_Ymd :: "date \<Rightarrow> string" where
  "strftime_Ymd dt =
     str_nat (nat (year dt)) @ ''.'' @ pad2 (month dt) @ ''.'' @ pad2 (day dt)"

section \<open>The bucket mapper\<close>

text \<open>
  \<^verbatim>\<open>get_date_range_folder(dt, origin, days)\<close>, lines 84-92. The two dates it computes
  on the way, \<^verbatim>\<open>start\<close> and \<^verbatim>\<open>end\<close>, are functions of the bucket index here.
\<close>

definition floordiv :: "int \<Rightarrow> int \<Rightarrow> error + int" where
  "floordiv a b = (if b = 0 then Inl ZeroDivisionError else Inr (a div b))"

definition bucket_start :: "datetime \<Rightarrow> int \<Rightarrow> int \<Rightarrow> error + date" where
  "bucket_start origin days idx =
     (case timedelta (idx * days) of
        Inl e \<Rightarrow> Inl e
      | Inr td \<Rightarrow> date_add (dt_date origin) td)"

definition bucket_end :: "datetime \<Rightarrow> int \<Rightarrow> int \<Rightarrow> error + date" where
  "bucket_end origin days idx =
     (case bucket_start origin days idx of
        Inl e \<Rightarrow> Inl e
      | Inr start \<Rightarrow>
          (case timedelta (days - 1) of
             Inl e \<Rightarrow> Inl e
           | Inr td \<Rightarrow> date_add start td))"

definition get_date_range_folder :: "datetime \<Rightarrow> datetime \<Rightarrow> int \<Rightarrow> error + string" where
  "get_date_range_folder dt origin days =
     (let delta = date_diff_days (dt_date dt) (dt_date origin)
      in case floordiv delta days of
           Inl e \<Rightarrow> Inl e
         | Inr idx \<Rightarrow>
             (case bucket_start origin days idx of
                Inl e \<Rightarrow> Inl e
              | Inr start \<Rightarrow>
                  (case bucket_end origin days idx of
                     Inl e \<Rightarrow> Inl e
                   | Inr end' \<Rightarrow> Inr (strftime_Ymd start @ ''-'' @ strftime_Ymd end'))))"

section \<open>Strings and paths\<close>

text \<open>
  A string is a sequence of code points, and a \<^typ>\<open>char\<close> is a code point below 256:
  the strings of the model are the Python strings over the first 256 code points of
  Unicode (ASCII and the Latin-1 supplement). On these \<^verbatim>\<open>str.lower()\<close> works
  character by character: the cased letters with a lower-case partner are A to Z and
  U+00C0 to U+00DE without the multiplication sign U+00D7, and the partner is 32 code
  points further. \<^verbatim>\<open>s.endswith(e)\<close> compares the last \<^verbatim>\<open>len(e)\<close> characters.
\<close>

definition UPPERCASE :: string where
  "UPPERCASE = ''ABCDEFGHIJKLMNOPQRSTUVWXYZ'' @
     [CHR 0xC0, CHR 0xC1, CHR 0xC2, CHR 0xC3, CHR 0xC4, CHR 0xC5, CHR 0xC6, CHR 0xC7,
      CHR 0xC8, CHR 0xC9, CHR 0xCA, CHR 0xCB, CHR 0xCC, CHR 0xCD, CHR 0xCE, CHR 0xCF,
      CHR 0xD0, CHR 0xD1, CHR 0xD2, CHR 0xD3, CHR 0xD4, CHR 0xD5, CHR 0xD6,
      CHR 0xD8, CHR 0xD9, CHR 0xDA, CHR 0xDB, CHR 0xDC, CHR 0xDD, CHR 0xDE]"

definition LOWERCASE :: string where
  "LOWERCASE = ''abcdefghijklmnopqrstuvwxyz'' @
     [CHR 0xE0, CHR 0xE1, CHR 0xE2, CHR 0xE3, CHR 0xE4, CHR 0xE5, CHR 0xE6, CHR 0xE7,
      CHR 0xE8, CHR 0xE9, CHR 0xEA, CHR 0xEB, CHR 0xEC, CHR 0xED, CHR 0xEE, CHR 0xEF,
      CHR 0xF0, CHR 0xF1, CHR 0xF2, CHR 0xF3, CHR 0xF4, CHR 0xF5, CHR 0xF6,
      CHR 0xF8, CHR 0xF9, CHR 0xFA, CHR 0xFB, CHR 0xFC, CHR 0xFD, CHR 0xFE]"

definition lower_char :: "char \<Rightarrow> char" where
  "lower_char c =
     (case map_of (zip UPPERCASE LOWERCASE) c of
        Some d \<Rightarrow> d
      | None \<Rightarrow> c)"

definition lower :: "string \<Rightarrow> string" where
  "lower s = map lower_char s"

definition endswith :: "string \<Rightarrow> string \<Rightarrow> bool" where
  "endswith s e = (length e \<le> length s \<and> drop (length s - length e) s = e)"

definition startswith :: "string \<Rightarrow> string \<Rightarrow> bool" where
  "startswith s e = (take (length e) s = e)"

text \<open>\<^verbatim>\<open>s.rfind(c)\<close>: the index of the last occurrence of \<^verbatim>\<open>c\<close>, or -1.\<close>

fun find_first :: "char \<Rightarrow> string \<Rightarrow> nat option" where
  "find_first c [] = None"
| "find_first c (x # xs) =
     (if x = c then Some 0 else map_option Suc (find_first c xs))"

definition rfind :: "string \<Rightarrow> char \<Rightarrow> int" where
  "rfind s c =
     (case find_first c (rev s) of
        None \<Rightarrow> - 1
      | Some k \<Rightarrow> int (length s) - 1 - int k)"

text \<open>
  \<^verbatim>\<open>os.path\<close> is \<^verbatim>\<open>posixpath\<close>: the separator is the slash. \<^verbatim>\<open>join\<close>,
  \<^verbatim>\<open>basename\<close>, \<^verbatim>\<open>splitext\<close> and \<^verbatim>\<open>commonpath\<close> follow the standard library, the
  last one for the two paths the script passes.
\<close>

definition join :: "string \<Rightarrow> string \<Rightarrow> string" where
  "join a b =
     (if startswith b ''/'' then b
      else if a = [] \<or> endswith a ''/'' then a @ b
      else a @ ''/'' @ b)"

definition basename :: "string \<Rightarrow> string" where
  "basename p = drop (nat (rfind p CHR ''/'' + 1)) p"

text \<open>
  \<^verbatim>\<open>posixpath.split\<close>: the head loses its trailing slashes unless it consists of
  slashes only.
\<close>

definition rstrip_sep :: "string \<Rightarrow> string" where
  "rstrip_sep s = rev (dropWhile (\<lambda>c. c = CHR ''/'') (rev s))"

definition posix_split :: "string \<Rightarrow> string \<times> string" where
  "posix_split p =
     (let i = nat (rfind p CHR ''/'' + 1);
          head = take i p;
          tail = drop i p
      in (if head \<noteq> [] \<and> \<not> list_all (\<lambda>c. c = CHR ''/'') head then rstrip_sep head else head,
          tail))"

definition splitext :: "string \<Rightarrow> string \<times> string" where
  "splitext p =
     (let sepIndex = rfind p CHR ''/'';
          dotIndex = rfind p CHR ''.''
      in if dotIndex > sepIndex
            \<and> list_ex (\<lambda>c. c \<noteq> CHR ''.'')
                 (take (nat (dotIndex - (sepIndex + 1))) (drop (nat (sepIndex + 1)) p))
         then (take (nat dotIndex) p, drop (nat dotIndex) p)
         else (p, []))"

fun split_sep :: "string \<Rightarrow> string list" where
  "split_sep [] = [[]]"
| "split_sep (c # cs) =
     (if c = CHR ''/'' then [] # split_sep cs
      else (case split_sep cs of
              [] \<Rightarrow> [[c]]
            | x # xs \<Rightarrow> (c # x) # xs))"

fun join_sep :: "string list \<Rightarrow> string" where
  "join_sep [] = []"
| "join_sep [x] = x"
| "join_sep (x # y # ys) = x @ ''/'' @ join_sep (y # ys)"

definition components :: "string \<Rightarrow> string list" where
  "components p = filter (\<lambda>c. c \<noteq> [] \<and> c \<noteq> ''.'') (split_sep p)"

definition isabs :: "string \<Rightarrow> bool" where
  "isabs p = startswith p ''/''"

fun common_prefix :: "'a list \<Rightarrow> 'a list \<Rightarrow> 'a list" where
  "common_prefix (x # xs) (y # ys) = (if x = y then x # common_prefix xs ys else [])"
| "common_prefix _ _ = []"

definition commonpath :: "string \<Rightarrow> string \<Rightarrow> error + string" where
  "commonpath p q =
     (if isabs p \<noteq> isabs q then Inl ValueError
      else Inr ((if isabs p then ''/'' else []) @
                join_sep (common_prefix (components p) (components q))))"

section \<open>The file system and the process\<close>

text \<open>
  What the script can observe of a file: the two timestamps of \<^verbatim>\<open>os.stat\<close> (whole
  seconds since the epoch), what Pillow reads from it, its content, and whether its
  directory entry can be removed. An entry that cannot be removed (a read-only directory,
  or a handle another process holds open) makes \<^verbatim>\<open>os.rename\<close> and \<^verbatim>\<open>os.unlink\<close>
  raise \<^verbatim>\<open>PermissionError\<close>, while reading the file succeeds.

  An EXIF value is represented by what \<^verbatim>\<open>datetime.strptime(val, "%Y:%m:%d %H:%M:%S")\<close>
  does with it: it returns a datetime or raises. \<^verbatim>\<open>NotAnImage\<close> stands for a file on
  which \<^verbatim>\<open>Image.open\<close> or \<^verbatim>\<open>_getexif\<close> raises.
\<close>

datatype exif_value = Parses datetime | Malformed

datatype pil_image = NotAnImage | Exif "(int \<times> exif_value) list"

record fileinfo =
  st_mtime :: int
  st_ctime :: int
  pil :: pil_image
  content :: string
  undeletable :: bool

datatype log_line =
    Warning_fallback
  | Processing_existing
  | Existing_done
  | Moved string string
  | Watching

text \<open>
  The state the script runs in: regular files and directories by path, the module
  constant \<^verbatim>\<open>EXIF_AVAILABLE\<close> (set once, at import), the lines printed so far, the
  paths handed to \<^verbatim>\<open>Image.open\<close> so far, and the local time zone of the process:
  \<^verbatim>\<open>utcoffset w t\<close> is the number of seconds local time is ahead of UTC at the POSIX
  time \<^verbatim>\<open>t\<close>. Paths are the strings the script builds. The root directory always
  exists.
\<close>

record world =
  files :: "(string \<times> fileinfo) list"
  dirs :: "string list"
  EXIF_AVAILABLE :: bool
  stdout :: "log_line list"
  image_opens :: "string list"
  utcoffset :: "int \<Rightarrow> int"

definition print :: "world \<Rightarrow> log_line \<Rightarrow> world" where
  "print w l = w\<lparr>stdout := stdout w @ [l]\<rparr>"

definition lookup :: "world \<Rightarrow> string \<Rightarrow> fileinfo option" where
  "lookup w p = map_of (files w) p"

definition is_root :: "string \<Rightarrow> bool" where
  "is_root p = (p \<noteq> [] \<and> list_all (\<lambda>c. c = CHR ''/'') p)"

definition isdir :: "world \<Rightarrow> string \<Rightarrow> bool" where
  "isdir w p = (is_root p \<or> p \<in> set (dirs w))"

definition path_exists :: "world \<Rightarrow> string \<Rightarrow> bool" where
  "path_exists w p = (lookup w p \<noteq> None \<or> isdir w p)"

definition os_stat :: "world \<Rightarrow> string \<Rightarrow> error + fileinfo" where
  "os_stat w p = (case lookup w p of None \<Rightarrow> Inl FileNotFoundError | Some f \<Rightarrow> Inr f)"

text \<open>
  \<^verbatim>\<open>os.mkdir(name)\<close>: the name must be free, and the directory it is to be created
  in must exist and be a directory (for a name of one component that is the current
  directory, which exists).
\<close>

definition makedirs_split :: "string \<Rightarrow> string \<times> string" where
  "makedirs_split name =
     (if snd (posix_split name) = [] then posix_split (fst (posix_split name))
      else posix_split name)"

definition mkdir :: "world \<Rightarrow> string \<Rightarrow> (error \<times> world) + world" where
  "mkdir w name =
     (let head = fst (makedirs_split name); tail = snd (makedirs_split name)
      in if path_exists w name then Inl (FileExistsError, w)
         else if tail = [] then Inl (FileNotFoundError, w)
         else if head \<noteq> [] \<and> lookup w head \<noteq> None then Inl (NotADirectoryError, w)
         else if head \<noteq> [] \<and> \<not> isdir w head then Inl (FileNotFoundError, w)
         else Inr (w\<lparr>dirs := dirs w @ [name]\<rparr>))"

text \<open>
  \<^verbatim>\<open>os.makedirs(name, exist_ok=True)\<close>: a missing parent is made first, by the same
  function, and a \<^verbatim>\<open>FileExistsError\<close> from there is passed over; then the directory
  itself is made, and an \<^verbatim>\<open>OSError\<close> of \<^verbatim>\<open>mkdir\<close> is dropped when the name is a
  directory by then.
\<close>

definition mkdir_exist_ok :: "world \<Rightarrow> string \<Rightarrow> (error \<times> world) + world" where
  "mkdir_exist_ok w name =
     (case mkdir w name of
        Inr w' \<Rightarrow> Inr w'
      | Inl (e, w') \<Rightarrow> if isdir w' name then Inr w' else Inl (e, w'))"

lemma rstrip_sep_length: "length (rstrip_sep s) \<le> length s"
proof -
  have "length (dropWhile (\<lambda>c. c = CHR ''/'') (rev s)) \<le> length (rev s)"
    by (rule length_dropWhile_le)
  then show ?thesis by (simp add: rstrip_sep_def)
qed

lemma posix_split_length:
  "length (fst (posix_split p)) + length (snd (posix_split p)) \<le> length p"
proof -
  define i where "i = nat (rfind p CHR ''/'' + 1)"
  have "length (rstrip_sep (take i p)) \<le> length (take i p)" by (rule rstrip_sep_length)
  moreover have "length (take i p) + length (drop i p) = length p" by simp
  ultimately show ?thesis
    unfolding posix_split_def Let_def i_def[symmetric] by (simp del: length_take length_drop)
qed

lemma makedirs_split_shorter:
  assumes "snd (makedirs_split name) \<noteq> []"
  shows "length (fst (makedirs_split name)) < length name"
proof (cases "snd (posix_split name) = []")
  case True
  define h where "h = fst (posix_split name)"
  have "length h \<le> length name"
    using posix_split_length[of name] by (simp add: h_def)
  moreover have "snd (posix_split h) \<noteq> []"
    using assms True by (simp add: makedirs_split_def h_def)
  then have "0 < length (snd (posix_split h))" by simp
  then have "length (fst (posix_split h)) < length h"
    using posix_split_length[of h] by linarith
  ultimately show ?thesis using True by (simp add: makedirs_split_def h_def)
next
  case False
  then have "0 < length (snd (posix_split name))" by simp
  then have "length (fst (posix_split name)) < length name"
    using posix_split_length[of name] by linarith
  then show ?thesis using False by (simp add: makedirs_split_def)
qed

function makedirs :: "world \<Rightarrow> string \<Rightarrow> (error \<times> world) + world" where
  "makedirs w name =
     (if fst (makedirs_split name) \<noteq> [] \<and> snd (makedirs_split name) \<noteq> []
         \<and> \<not> path_exists w (fst (makedirs_split name))
      then (case makedirs w (fst (makedirs_split name)) of
              Inl (e, w') \<Rightarrow>
                if e \<noteq> FileExistsError then Inl (e, w')
                else if snd (makedirs_split name) = ''.'' then Inr w'
                else mkdir_exist_ok w' name
            | Inr w' \<Rightarrow>
                if snd (makedirs_split name) = ''.'' then Inr w'
                else mkdir_exist_ok w' name)
      else mkdir_exist_ok w name)"
  by pat_completeness auto
termination
  by (relation "measure (\<lambda>(w, name). length name)") (simp_all add: makedirs_split_shorter)

declare makedirs.simps [simp del]

definition os_rename :: "world \<Rightarrow> string \<Rightarrow> string \<Rightarrow> (error \<times> world) + world" where
  "os_rename w src dst' =
     (case lookup w src of
        None \<Rightarrow> Inl (FileNotFoundError, w)
      | Some f \<Rightarrow>
          if undeletable f then Inl (PermissionError, w)
          else Inr (w\<lparr>files := AList.update dst' f (AList.delete src (files w))\<rparr>))"

text \<open>\<^verbatim>\<open>shutil.copy2\<close>: the copy has the content and the modification time of the source.\<close>

definition copy2 :: "world \<Rightarrow> string \<Rightarrow> string \<Rightarrow> (error \<times> world) + world" where
  "copy2 w src dst' =
     (case lookup w src of
        None \<Rightarrow> Inl (FileNotFoundError, w)
      | Some f \<Rightarrow> Inr (w\<lparr>files := AList.update dst' (f\<lparr>undeletable := False\<rparr>) (files w)\<rparr>))"

definition os_unlink :: "world \<Rightarrow> string \<Rightarrow> (error \<times> world) + world" where
  "os_unlink w src =
     (case lookup w src of
        None \<Rightarrow> Inl (FileNotFoundError, w)
      | Some f \<Rightarrow>
          if undeletable f then Inl (PermissionError, w)
          else Inr (w\<lparr>files := AList.delete src (files w)\<rparr>))"

text \<open>
  \<^verbatim>\<open>shutil.move(src, dst)\<close> for a regular file: a destination that is a directory
  receives the file under its own name; \<^verbatim>\<open>os.rename\<close> is tried first, and when it
  raises an \<^verbatim>\<open>OSError\<close> the file is copied and the source unlinked.
\<close>

definition shutil_move :: "world \<Rightarrow> string \<Rightarrow> string \<Rightarrow> (error \<times> world) + world" where
  "shutil_move w src dst' =
     (let real_dst = (if isdir w dst' then join dst' (basename src) else dst')
      in if isdir w dst' \<and> path_exists w real_dst then Inl (ShutilError, w)
         else (case os_rename w src real_dst of
                 Inr w' \<Rightarrow> Inr w'
               | Inl _ \<Rightarrow>
                   (case copy2 w src real_dst of
                      Inl ew \<Rightarrow> Inl ew
                    | Inr w' \<Rightarrow> os_unlink w' src)))"

text \<open>
  \<^verbatim>\<open>datetime.fromtimestamp(ts)\<close> for a timestamp of whole seconds; 1970-01-01 is
  day 719163. The timestamp has to fit the platform's \<^verbatim>\<open>time_t\<close>
  (\<^verbatim>\<open>OverflowError\<close>) and \<^verbatim>\<open>localtime\<close> has to break it down, which fails when the
  year does not fit a C \<^verbatim>\<open>int\<close> (\<^verbatim>\<open>OSError\<close>). The year has to lie in 1 .. 9999
  (\<^verbatim>\<open>ValueError\<close>), and so has the year of the instant a day earlier, which the
  function looks at to find out whether the local time is repeated; when the offset
  has gone down within that day it looks at one more instant in between.
\<close>

definition local_seconds :: "world \<Rightarrow> int \<Rightarrow> int" where
  "local_seconds w t = t + utcoffset w t"

definition local_ordinal :: "world \<Rightarrow> int \<Rightarrow> int" where
  "local_ordinal w t = 719163 + local_seconds w t div 86400"

definition localtime_ok :: "world \<Rightarrow> int \<Rightarrow> bool" where
  "localtime_ok w t =
     (let y = year (ord2ymd (local_ordinal w t)) - 1900
      in - 2147483648 \<le> y \<and> y \<le> 2147483647)"

definition year_ok :: "world \<Rightarrow> int \<Rightarrow> bool" where
  "year_ok w t = (0 < local_ordinal w t \<and> local_ordinal w t \<le> MAXORDINAL)"

definition fromtimestamp :: "world \<Rightarrow> int \<Rightarrow> error + datetime" where
  "fromtimestamp w ts =
     (let probe = ts - 86400;
          transition = local_seconds w ts - local_seconds w probe - 86400;
          s = local_seconds w ts mod 86400
      in if ts < - 9223372036854775808 \<or> 9223372036854775807 < ts then Inl OverflowError
         else if \<not> localtime_ok w ts then Inl OSError
         else if \<not> year_ok w ts then Inl ValueError
         else if \<not> localtime_ok w probe then Inl OSError
         else if \<not> year_ok w probe then Inl ValueError
         else if transition < 0 \<and> \<not> localtime_ok w (ts + transition) then Inl OSError
         else if transition < 0 \<and> \<not> year_ok w (ts + transition) then Inl ValueError
         else Inr \<lparr>dt_date = ord2ymd (local_ordinal w ts), hour = s div 3600,
                   minute = s mod 3600 div 60, second = s mod 60\<rparr>)"

section \<open>The script\<close>

subsection \<open>\<^verbatim>\<open>ensure_unique\<close>, lines 71-81\<close>

text \<open>
  The loop ends because the names \<^verbatim>\<open>base_1ext\<close>, \<^verbatim>\<open>base_2ext\<close>, ... are pairwise
  different and the file system holds finitely many paths. The decimal numeral of a
  number determines it, which \<^verbatim>\<open>nat_of_str\<close> reads back.
\<close>

definition digit_value :: "char \<Rightarrow> nat" where
  "digit_value c = (case find_first c ''0123456789'' of Some k \<Rightarrow> k | None \<Rightarrow> 0)"

definition nat_of_str :: "string \<Rightarrow> nat" where
  "nat_of_str s = foldl (\<lambda>a c. 10 * a + digit_value c) 0 s"

lemma digit_value_digit: "k < 10 \<Longrightarrow> digit_value (digit (int k)) = k"
proof -
  assume "k < 10"
  then have "k = 0 \<or> k = 1 \<or> k = 2 \<or> k = 3 \<or> k = 4 \<or> k = 5 \<or> k = 6 \<or> k = 7 \<or> k = 8 \<or> k = 9"
    by arith
  then show ?thesis
    by (elim disjE) (simp_all add: digit_value_def digit_def)
qed

lemma nat_of_str_str_nat: "nat_of_str (str_nat n) = n"
proof (induction n rule: str_nat.induct)
  case (1 n)
  show ?case
  proof (cases "n < 10")
    case True
    then show ?thesis
      by (subst str_nat.simps) (simp add: nat_of_str_def digit_value_digit)
  next
    case False
    have "nat_of_str (str_nat n) = 10 * nat_of_str (str_nat (n div 10)) + digit_value (digit (int (n mod 10)))"
      using False by (subst str_nat.simps) (simp add: nat_of_str_def)
    also have "\<dots> = 10 * (n div 10) + n mod 10"
      using 1[OF False] by (simp add: digit_value_digit)
    finally show ?thesis by simp
  qed
qed

lemma str_nat_inj: "str_nat i = str_nat j \<Longrightarrow> i = j"
  by (metis nat_of_str_str_nat)

text \<open>The f-string \<^verbatim>\<open>f"{base}_{i}{ext}"\<close>.\<close>

definition candidate :: "string \<Rightarrow> string \<Rightarrow> nat \<Rightarrow> string" where
  "candidate base ext i = base @ ''_'' @ str_nat i @ ext"

lemma candidate_inj: "inj (candidate base ext)"
  by (rule injI) (simp add: candidate_def str_nat_inj)

definition taken :: "world \<Rightarrow> string \<Rightarrow> string \<Rightarrow> nat \<Rightarrow> nat set" where
  "taken w base ext i = {j. i \<le> j \<and> path_exists w (candidate base ext j)}"

lemma finite_taken: "finite (taken w base ext i)"
proof -
  have "finite (set (map fst (files w)) \<union> set (dirs w))" by simp
  then have "finite (candidate base ext -` (set (map fst (files w)) \<union> set (dirs w)))"
    by (rule finite_vimageI) (rule candidate_inj)
  moreover have "\<not> is_root (candidate base ext j)" for j
    by (simp add: is_root_def candidate_def)
  then have "taken w base ext i \<subseteq> candidate base ext -` (set (map fst (files w)) \<union> set (dirs w))"
    by (auto simp: taken_def path_exists_def isdir_def lookup_def map_of_eq_None_iff)
  ultimately show ?thesis by (rule rev_finite_subset)
qed

lemma taken_step:
  "taken w base ext i =
     (if path_exists w (candidate base ext i) then insert i (taken w base ext (Suc i))
      else taken w base ext (Suc i))"
  by (auto simp: taken_def Suc_le_eq le_less)

function ensure_unique_loop :: "world \<Rightarrow> string \<Rightarrow> string \<Rightarrow> nat \<Rightarrow> string \<Rightarrow> string" where
  "ensure_unique_loop w base ext i new_dst =
     (if path_exists w new_dst
      then ensure_unique_loop w base ext (i + 1) (candidate base ext i)
      else new_dst)"
  by pat_completeness auto
termination
proof (relation "measure (\<lambda>(w, base, ext, i, new_dst).
          card (taken w base ext i) + (if path_exists w new_dst then 1 else 0))")
  show "wf (measure (\<lambda>(w, base, ext, i, new_dst).
          card (taken w base ext i) + (if path_exists w new_dst then 1 else 0)))"
    by simp
next
  fix w base ext i new_dst
  assume ex: "path_exists w new_dst"
  have "i \<notin> taken w base ext (Suc i)" by (simp add: taken_def)
  then have "card (taken w base ext (Suc i)) + (if path_exists w (candidate base ext i) then 1 else 0)
        = card (taken w base ext i)"
    using finite_taken[of w base ext "Suc i"] by (subst (2) taken_step) simp
  then show "((w, base, ext, i + 1, candidate base ext i), (w, base, ext, i, new_dst))
        \<in> measure (\<lambda>(w, base, ext, i, new_dst).
          card (taken w base ext i) + (if path_exists w new_dst then 1 else 0))"
    using ex by simp
qed

definition ensure_unique :: "world \<Rightarrow> string \<Rightarrow> string" where
  "ensure_unique w dst' = (let (base, ext) = splitext dst' in ensure_unique_loop w base ext 1 dst')"

subsection \<open>\<^verbatim>\<open>get_exif_datetime\<close> and \<^verbatim>\<open>pick_timestamp\<close>, lines 37-68\<close>

text \<open>
  The entries of \<^verbatim>\<open>PIL.ExifTags.TAGS\<close> that carry one of the three names the script
  looks for; \<^verbatim>\<open>TAGS.get(tag, tag)\<close> gives another name, or the number itself, for
  every other tag.
\<close>

definition TAGS :: "int \<Rightarrow> string option" where
  "TAGS tag =
     (if tag = 306 then Some ''DateTime''
      else if tag = 36867 then Some ''DateTimeOriginal''
      else if tag = 36868 then Some ''DateTimeDigitized''
      else None)"

text \<open>
  The loop over \<^verbatim>\<open>exif.items()\<close>: the first tag with one of the three names decides.
  When \<^verbatim>\<open>strptime\<close> raises on its value, the \<^verbatim>\<open>except Exception\<close> clause ends the
  function with \<^verbatim>\<open>None\<close>; later tags are not looked at.
\<close>

fun first_date_tag :: "(int \<times> exif_value) list \<Rightarrow> datetime option" where
  "first_date_tag [] = None"
| "first_date_tag ((tag, val) # rest) =
     (if TAGS tag \<in> {Some ''DateTime'', Some ''DateTimeOriginal'', Some ''DateTimeDigitized''}
      then (case val of Parses dt \<Rightarrow> Some dt | Malformed \<Rightarrow> None)
      else first_date_tag rest)"

definition get_exif_datetime :: "world \<Rightarrow> string \<Rightarrow> datetime option \<times> world" where
  "get_exif_datetime w path =
     (if \<not> EXIF_AVAILABLE w then (None, w)
      else (let w' = w\<lparr>image_opens := image_opens w @ [path]\<rparr>
            in case lookup w path of
                 None \<Rightarrow> (None, w')
               | Some f \<Rightarrow>
                   (case pil f of
                      NotAnImage \<Rightarrow> (None, w')
                    | Exif tags \<Rightarrow> (first_date_tag tags, w'))))"

definition stat_timestamp :: "world \<Rightarrow> string \<Rightarrow> string \<Rightarrow> (error \<times> world) + (datetime \<times> world)" where
  "stat_timestamp w path source =
     (case os_stat w path of
        Inl e \<Rightarrow> Inl (e, w)
      | Inr st \<Rightarrow>
          (let ts = (if source \<noteq> ''ctime'' then st_mtime st else st_ctime st)
           in case fromtimestamp w ts of
                Inl e \<Rightarrow> Inl (e, w)
              | Inr dt \<Rightarrow> Inr (dt, w)))"

definition pick_timestamp :: "world \<Rightarrow> string \<Rightarrow> string \<Rightarrow> (error \<times> world) + (datetime \<times> world)" where
  "pick_timestamp w path source =
     (if source = ''exif''
      then (case get_exif_datetime w path of
              (Some dt, w') \<Rightarrow> Inr (dt, w')
            | (None, w') \<Rightarrow> stat_timestamp w' path source)
      else stat_timestamp w path source)"

subsection \<open>\<^verbatim>\<open>sort_file\<close>, lines 95-106\<close>

definition sort_file ::
  "world \<Rightarrow> string \<Rightarrow> string \<Rightarrow> string \<Rightarrow> datetime \<Rightarrow> int \<Rightarrow> (error \<times> world) + world" where
  "sort_file w path dst_root source origin days =
     (case pick_timestamp w path source of
        Inl ew \<Rightarrow> Inl ew
      | Inr (dt, w1) \<Rightarrow>
          (case get_date_range_folder dt origin days of
             Inl e \<Rightarrow> Inl (e, w1)
           | Inr folder_name \<Rightarrow>
               (let target = join dst_root folder_name
                in case makedirs w1 target of
                     Inl ew \<Rightarrow> Inl ew
                   | Inr w2 \<Rightarrow>
                       (let name = basename path;
                            dst' = ensure_unique w2 (join target name)
                        in case shutil_move w2 path dst' of
                             Inl ew \<Rightarrow> Inl ew
                           | Inr w3 \<Rightarrow> Inr (print w3 (Moved name folder_name))))))"

subsection \<open>\<^verbatim>\<open>process_existing\<close>, lines 109-122\<close>

text \<open>
  \<^verbatim>\<open>f.lower().endswith(tuple(exts))\<close>, and the same test as the watch handler writes
  it, \<^verbatim>\<open>any(p.lower().endswith(e) for e in exts)\<close>.
\<close>

definition eligible :: "string \<Rightarrow> string set \<Rightarrow> bool" where
  "eligible f exts = (\<exists>e\<in>exts. endswith (lower f) e)"

text \<open>
  The sweep takes what \<^verbatim>\<open>os.walk(watch_dir)\<close> yields, a list of directories each with
  the names of its files, in place of \<^verbatim>\<open>watch_dir\<close>. The inner loop is
  \<^verbatim>\<open>sweep_files\<close>, the outer one \<^verbatim>\<open>sweep_walk\<close>.
\<close>

fun sweep_files ::
  "world \<Rightarrow> string \<Rightarrow> string list \<Rightarrow> string \<Rightarrow> string \<Rightarrow> datetime \<Rightarrow> int \<Rightarrow> string set
     \<Rightarrow> (error \<times> world) + world" where
  "sweep_files w root [] dst_root source origin days exts = Inr w"
| "sweep_files w root (f # fs) dst_root source origin days exts =
     (if eligible f exts
      then (let fp = join root f
            in case commonpath fp dst_root of
                 Inl e \<Rightarrow> Inl (e, w)
               | Inr cp \<Rightarrow>
                   if cp = dst_root
                   then sweep_files w root fs dst_root source origin days exts
                   else (case sort_file w fp dst_root source origin days of
                           Inl ew \<Rightarrow> Inl ew
                         | Inr w' \<Rightarrow> sweep_files w' root fs dst_root source origin days exts))
      else sweep_files w root fs dst_root source origin days exts)"

fun sweep_walk ::
  "world \<Rightarrow> (string \<times> string list) list \<Rightarrow> string \<Rightarrow> string \<Rightarrow> datetime \<Rightarrow> int \<Rightarrow> string set
     \<Rightarrow> (error \<times> world) + world" where
  "sweep_walk w [] dst_root source origin days exts = Inr w"
| "sweep_walk w ((root, fs) # rest) dst_root source origin days exts =
     (case sweep_files w root fs dst_root source origin days exts of
        Inl ew \<Rightarrow> Inl ew
      | Inr w' \<Rightarrow> sweep_walk w' rest dst_root source origin days exts)"

definition process_existing ::
  "world \<Rightarrow> (string \<times> string list) list \<Rightarrow> string \<Rightarrow> string \<Rightarrow> datetime \<Rightarrow> int \<Rightarrow> string set
     \<Rightarrow> (error \<times> world) + world" where
  "process_existing w walk dst_root source origin days exts =
     (case sweep_walk (print w Processing_existing) walk dst_root source origin days exts of
        Inl ew \<Rightarrow> Inl ew
      | Inr w' \<Rightarrow> Inr (print w' Existing_done))"

subsection \<open>\<^verbatim>\<open>ScreenshotHandler\<close>, lines 125-139\<close>

record handler =
  h_dst :: string
  h_source :: string
  h_origin :: datetime
  h_days :: int
  h_exts :: "string set"

record event =
  is_directory :: bool
  src_path :: string

text \<open>\<^verbatim>\<open>time.sleep(0.2)\<close> changes nothing the model holds.\<close>

definition on_created :: "handler \<Rightarrow> event \<Rightarrow> world \<Rightarrow> (error \<times> world) + world" where
  "on_created h ev w =
     (if is_directory ev then Inr w
      else if \<not> eligible (src_path ev) (h_exts h) then Inr w
      else sort_file w (src_path ev) (h_dst h) (h_source h) (h_origin h) (h_days h))"

text \<open>
  The observer thread of \<^verbatim>\<open>watchdog\<close> hands the events to the handler one after the
  other and catches nothing but an empty queue: an exception that leaves \<^verbatim>\<open>on_created\<close>
  ends the thread, and no later event is dispatched.
\<close>

fun dispatch_events :: "handler \<Rightarrow> event list \<Rightarrow> world \<Rightarrow> (error \<times> world) + world" where
  "dispatch_events h [] w = Inr w"
| "dispatch_events h (ev # evs) w =
     (case on_created h ev w of
        Inl ew \<Rightarrow> Inl ew
      | Inr w' \<Rightarrow> dispatch_events h evs w')"

subsection \<open>\<^verbatim>\<open>main\<close>, lines 142-174\<close>

text \<open>
  The parsed arguments, what \<^verbatim>\<open>os.walk\<close> yields for the watched directory, and the
  events the observer delivers until the process is interrupted.
\<close>

record args =
  watch_dir :: string
  dst_dir :: string
  a_days :: int
  a_origin :: datetime
  a_source :: string
  a_exts :: "string set"
  a_process_existing :: bool

definition main ::
  "world \<Rightarrow> args \<Rightarrow> (string \<times> string list) list \<Rightarrow> event list \<Rightarrow> (error \<times> world) + world" where
  "main w a walk evs =
     (case makedirs w (dst_dir a) of
        Inl ew \<Rightarrow> Inl ew
      | Inr w1 \<Rightarrow>
          (let w2 = (if a_source a = ''exif'' \<and> \<not> EXIF_AVAILABLE w1
                     then print w1 Warning_fallback else w1)
           in case (if a_process_existing a
                    then process_existing w2 walk (dst_dir a) (a_source a) (a_origin a)
                           (a_days a) (a_exts a)
                    else Inr w2) of
                Inl ew \<Rightarrow> Inl ew
              | Inr w3 \<Rightarrow>
                  dispatch_events
                    \<lparr>h_dst = dst_dir a, h_source = a_source a, h_origin = a_origin a,
                      h_days = a_days a, h_exts = a_exts a\<rparr>
                    evs (print w3 Watching)))"

section \<open>Properties of the calendar\<close>












subsection \<open>The formatted date determines the date\<close>




section \<open>Example inputs\<close>

text \<open>
  \<^verbatim>\<open>datetime(y, m, d)\<close>, two screenshots of the same name in two directories, modified
  on 2025-05-13 and 2025-05-14 (UTC), and a file system that holds them, in a process
  whose local time is UTC.
\<close>

definition datetime_of :: "int \<Rightarrow> int \<Rightarrow> int \<Rightarrow> datetime" where
  "datetime_of y m d =
     \<lparr>dt_date = \<lparr>year = y, month = m, day = d\<rparr>, hour = 0, minute = 0, second = 0\<rparr>"

definition shot_A :: fileinfo where
  "shot_A = \<lparr>st_mtime = 1747094400, st_ctime = 1747094400, pil = NotAnImage,
              content = ''A'', undeletable = False\<rparr>"

definition shot_B :: fileinfo where
  "shot_B = \<lparr>st_mtime = 1747180800, st_ctime = 1747180800, pil = NotAnImage,
              content = ''B'', undeletable = False\<rparr>"

definition world0 :: world where
  "world0 = \<lparr>files = [(''/in/a/shot.png'', shot_A), (''/in/b/shot.png'', shot_B)],
              dirs = [''/in'', ''/in/a'', ''/in/b'', ''/out''],
              EXIF_AVAILABLE = False, stdout = [], image_opens = [],
              utcoffset = (\<lambda>t. 0)\<rparr>"

section \<open>Eligibility\<close>






section \<open>The exclusion check of the sweep\<close>

text \<open>
  Claim C10. The check \<^verbatim>\<open>os.path.commonpath([fp, dst_root]) == dst_root\<close> is not total.
  When the path of an eligible file and the destination root are one absolute and the
  other relative, \<^verbatim>\<open>commonpath\<close> raises \<^verbatim>\<open>ValueError\<close>; nothing catches it, so the
  sweep ends there: the file is neither skipped nor classified, the world is as it was
  when the file was reached, and the files after it are not looked at. (Paths are POSIX
  paths here; drives do not occur.)
\<close>

theorem commonpath_check_aborts_sweep:
  assumes "eligible f exts" and "isabs (join root f) \<noteq> isabs dst_root"
  shows "commonpath (join root f) dst_root = Inl ValueError
    \<and> sweep_files w root (f # fs) dst_root source origin days exts = Inl (ValueError, w)
    \<and> sweep_walk w ((root, f # fs) # rest) dst_root source origin days exts = Inl (ValueError, w)
    \<and> process_existing w ((root, f # fs) # rest) dst_root source origin days exts
        = Inl (ValueError, print w Processing_existing)"
  using assms by (simp add: commonpath_def process_existing_def)

theorem commonpath_check_aborts_sweep_witness:
  "eligible ''shot.png'' {''png''}
   \<and> isabs (join ''in/a'' ''shot.png'') \<noteq> isabs ''/out''
   \<and> process_existing world0 [(''in/a'', [''shot.png'']), (''/in/b'', [''shot.png''])]
        ''/out'' ''mtime'' (datetime_of 2025 5 1) 10 {''png''}
      = Inl (ValueError, world0\<lparr>stdout := [Processing_existing]\<rparr>)"
proof -
  have a: "eligible ''shot.png'' {''png''}"
    by (simp add: eligible_def endswith_def lower_def lower_char_def UPPERCASE_def LOWERCASE_def)
  have b: "isabs (join ''in/a'' ''shot.png'') \<noteq> isabs ''/out''"
    by (simp add: isabs_def join_def startswith_def endswith_def)
  show ?thesis
    using commonpath_check_aborts_sweep[OF a b, where w = world0 and fs = "[]"
        and rest = "[(''/in/b'', [''shot.png''])]" and source = "''mtime''"
        and origin = "datetime_of 2025 5 1" and days = 10] a b
    by (simp add: print_def world0_def)
qed

section \<open>The label of a bucket\<close>


















section \<open>The buckets tile the dates\<close>




section \<open>What the steps of \<^verbatim>\<open>sort_file\<close> change\<close>






lemma get_exif_datetime_world:
  "\<exists>os. snd (get_exif_datetime w path) = w\<lparr>image_opens := os\<rparr>"
proof (cases "EXIF_AVAILABLE w")
  case False
  then have "snd (get_exif_datetime w path) = w\<lparr>image_opens := image_opens w\<rparr>"
    by (simp add: get_exif_datetime_def)
  then show ?thesis ..
next
  case True
  then have "snd (get_exif_datetime w path) = w\<lparr>image_opens := image_opens w @ [path]\<rparr>"
    by (simp add: get_exif_datetime_def Let_def split: option.splits pil_image.splits)
  then show ?thesis ..
qed



lemma pick_timestamp_needs_file:
  assumes "pick_timestamp w path source = Inr (dt, w')"
  shows "lookup w path \<noteq> None"
proof (cases "source = ''exif''")
  case False
  then show ?thesis using assms
    by (auto simp: pick_timestamp_def stat_timestamp_def os_stat_def split: sum.splits option.splits)
next
  case True
  obtain r w1 where g: "get_exif_datetime w path = (r, w1)" by (cases "get_exif_datetime w path")
  from get_exif_datetime_world[of w path] g obtain os where w1: "w1 = w\<lparr>image_opens := os\<rparr>"
    by auto
  show ?thesis
  proof (cases r)
    case None
    then show ?thesis using assms True g w1
      by (auto simp: pick_timestamp_def stat_timestamp_def os_stat_def lookup_def
          split: sum.splits option.splits)
  next
    case (Some d)
    then show ?thesis using g
      by (auto simp: get_exif_datetime_def Let_def split: if_splits option.splits pil_image.splits)
  qed
qed

lemma splitext_append: "fst (splitext p) @ snd (splitext p) = p"
  by (simp add: splitext_def Let_def)


lemma ensure_unique_loop_least:
  "path_exists w new_dst \<Longrightarrow>
   \<exists>k\<ge>i. ensure_unique_loop w base ext i new_dst = candidate base ext k
     \<and> (\<forall>j. i \<le> j \<and> j < k \<longrightarrow> path_exists w (candidate base ext j))"
proof (induction w base ext i new_dst rule: ensure_unique_loop.induct)
  case (1 w base ext i new_dst)
  have unf: "ensure_unique_loop w base ext i new_dst
      = ensure_unique_loop w base ext (i + 1) (candidate base ext i)"
    using "1.prems" by (subst ensure_unique_loop.simps) simp
  show ?case
  proof (cases "path_exists w (candidate base ext i)")
    case False
    then have "ensure_unique_loop w base ext i new_dst = candidate base ext i"
      unfolding unf by (subst ensure_unique_loop.simps) simp
    then show ?thesis by (intro exI[of _ i]) auto
  next
    case True
    from "1.IH"[OF "1.prems" True] obtain k where k: "i + 1 \<le> k"
      "ensure_unique_loop w base ext (i + 1) (candidate base ext i) = candidate base ext k"
      "\<forall>j. i + 1 \<le> j \<and> j < k \<longrightarrow> path_exists w (candidate base ext j)"
      by blast
    have "\<forall>j. i \<le> j \<and> j < k \<longrightarrow> path_exists w (candidate base ext j)"
    proof (intro allI impI)
      fix j assume j: "i \<le> j \<and> j < k"
      show "path_exists w (candidate base ext j)"
      proof (cases "j = i")
        case True
        then show ?thesis using \<open>path_exists w (candidate base ext i)\<close> by simp
      next
        case False
        then have "i + 1 \<le> j \<and> j < k" using j by simp
        then show ?thesis using k(3) by blast
      qed
    qed
    then show ?thesis using k(1,2) unf by (intro exI[of _ k]) auto
  qed
qed







lemma lookup_image_opens [simp]: "lookup (w\<lparr>image_opens := os\<rparr>) p = lookup w p"
  by (simp add: lookup_def)

lemma lookup_dirs [simp]: "lookup (w\<lparr>dirs := ds\<rparr>) p = lookup w p"
  by (simp add: lookup_def)

lemma lookup_print [simp]: "lookup (print w l) p = lookup w p"
  by (simp add: lookup_def print_def)

section \<open>The outcome of a move\<close>





end
